theory Spec2Isabelle
  imports Complex_Main
begin

section \<open>The absori opacity model of \<^verbatim>\<open>bb_astromodels/xray/absorption.py\<close>\<close>

text \<open>
  The classes \<^verbatim>\<open>Absori\<close> and \<^verbatim>\<open>Integrate_Absori\<close> carry textually identical copies of
  \<^verbatim>\<open>_setup\<close>, \<^verbatim>\<open>_calc_num\<close>, \<^verbatim>\<open>_interpolate_sigma\<close> and \<^verbatim>\<open>_calc_opacity\<close>; each is embedded
  once.  The float64 arithmetic of numpy is idealised to the real numbers: rounding,
  overflow and the IEEE values inf and nan are outside the model.  A numpy array of a fixed
  shape is a function on its index range; the shapes are the literals of \<^verbatim>\<open>_load_sigma\<close>
  (10 elements, 26 stages, 721 energies).  Arrays whose length follows an argument (the
  energies) and arrays that are copied and updated in place (the abundances) are lists.
\<close>

subsection \<open>The loaded tables\<close>

text \<open>
  The fields set by \<^verbatim>\<open>_setup\<close> from the two data files, which are not part of the
  sources: \<open>ion e s k\<close> is \<^verbatim>\<open>self._ion[e, s, k]\<close>, \<open>sigma k s e\<close> is \<^verbatim>\<open>self._sigma[k, s, e]\<close>
  (after the transposition of \<^verbatim>\<open>_setup\<close>), \<open>atomicnumber e\<close> is \<^verbatim>\<open>self._atomicnumber[e]\<close>,
  \<open>base_energy k\<close> is \<^verbatim>\<open>self._base_energy[k]\<close>.  \<open>abundance_ref\<close> is the address, in the
  store of array objects, of the array held by \<^verbatim>\<open>self._abundance\<close>.
\<close>

record absori =
  ion :: "nat \<Rightarrow> nat \<Rightarrow> nat \<Rightarrow> real"
  sigma :: "nat \<Rightarrow> nat \<Rightarrow> nat \<Rightarrow> real"
  atomicnumber :: "nat \<Rightarrow> nat"
  base_energy :: "nat \<Rightarrow> real"
  abundance_ref :: nat

text \<open>The store of array objects: an address is an index into the list.\<close>

type_synonym store = "real list list"

datatype py_error = ZeroDivisionError

text \<open>\<^verbatim>\<open>self._mask_valid[i, :n] = True\<close> for \<open>n = atomicnumber[i]\<close>.\<close>

definition mask_valid :: "absori \<Rightarrow> nat \<Rightarrow> nat \<Rightarrow> bool" where
  "mask_valid A e s = (s < atomicnumber A e)"

text \<open>\<^verbatim>\<open>self._mask_2[i, n] = True\<close> for \<open>n = atomicnumber[i] - 1\<close>; atomic numbers are at
  least 1, so the index is not negative.\<close>

definition mask_2 :: "absori \<Rightarrow> nat \<Rightarrow> nat \<Rightarrow> bool" where
  "mask_2 A e s = (s = atomicnumber A e - 1)"

text \<open>The \<^verbatim>\<open>deltaE\<close> array of \<^verbatim>\<open>_setup\<close>, on the 721 points of the grid: index 0, index -1
  and the slice \<^verbatim>\<open>[1:-1]\<close>.\<close>

definition deltaE :: "(nat \<Rightarrow> real) \<Rightarrow> nat \<Rightarrow> real" where
  "deltaE be k =
     (if k = 0 then be 1 - be 0
      else if k = 720 then be 720 - be 719
      else (be (k + 1) - be (k - 1)) / 2)"

text \<open>What the tables must satisfy for the shapes of \<^verbatim>\<open>_calc_num\<close> to fit: every atomic
  number is between 1 and 26 (the stage axis has 26 slots).\<close>

definition atomic_ok :: "absori \<Rightarrow> bool" where
  "atomic_ok A = (\<forall>e<10. 1 \<le> atomicnumber A e \<and> atomicnumber A e \<le> 26)"

text \<open>The energy grid is positive and strictly increasing.\<close>

definition grid_ok :: "absori \<Rightarrow> bool" where
  "grid_ok A = (0 < base_energy A 0 \<and> (\<forall>k<720. base_energy A k < base_energy A (Suc k)))"

subsection \<open>The ionizing spectrum\<close>

text \<open>Modelled from the spec: \<^verbatim>\<open>calc_ion_spec_numba\<close> of \<^verbatim>\<open>bb_astromodels/utils/numba_functions.py\<close>
  is not among the sources; section 4.3 of the specification gives
  \<^verbatim>\<open>spec[energyBin] = E^(-gamma) * deltaE[energyBin]\<close>.  The \<^verbatim>\<open>lru_cache\<close> around it
  does not change what it returns.\<close>

definition calc_ion_spec :: "absori \<Rightarrow> real \<Rightarrow> nat \<Rightarrow> real" where
  "calc_ion_spec A gamma k = base_energy A k powr (- gamma) * deltaE (base_energy A) k"

subsection \<open>\<^verbatim>\<open>_calc_num\<close>\<close>

definition xil_of :: "real \<Rightarrow> real" where
  "xil_of xi = (if xi \<le> 0 then - 100 else ln xi)"

definition arec :: "absori \<Rightarrow> real \<Rightarrow> nat \<Rightarrow> nat \<Rightarrow> real" where
  "arec A temp e s =
     (let t4 = 0.0001 * temp;
          tfact = 0.001033 / sqrt t4;
          e1 = exp (- ion A e s 4 / t4);
          e2 = exp (- ion A e s 6 / t4);
          a = ion A e s 1 * (t4 powr (- ion A e s 2))
              + ion A e s 3 * (t4 powr (- 1.5)) * e1 * (1 + ion A e s 5 * e2);
          z2 = real ((atomicnumber A e)\<^sup>2);
          y = 15.8 * z2 / t4;
          arec2 = tfact * z2 * (1.735 + ln y + 1 / (6 * y))
      in if mask_2 A e s then arec2 else a)"

definition intgral :: "absori \<Rightarrow> (nat \<Rightarrow> real) \<Rightarrow> nat \<Rightarrow> nat \<Rightarrow> real" where
  "intgral A spec e s = (\<Sum>k<721. sigma A k s e * spec k)"

definition ratio :: "absori \<Rightarrow> (nat \<Rightarrow> real) \<Rightarrow> real \<Rightarrow> nat \<Rightarrow> nat \<Rightarrow> real" where
  "ratio A spec temp e s =
     (if arec A temp e s \<noteq> 0
      then ln (0.0000032749 * intgral A spec e s / arec A temp e s)
      else 0)"

definition ratcumsum :: "absori \<Rightarrow> (nat \<Rightarrow> real) \<Rightarrow> real \<Rightarrow> nat \<Rightarrow> nat \<Rightarrow> real" where
  "ratcumsum A spec temp e j = (\<Sum>s\<le>j. ratio A spec temp e s)"

text \<open>\<^verbatim>\<open>mul\<close> before the maximum is subtracted.\<close>

definition mul0 :: "absori \<Rightarrow> (nat \<Rightarrow> real) \<Rightarrow> real \<Rightarrow> real \<Rightarrow> nat \<Rightarrow> nat \<Rightarrow> real" where
  "mul0 A spec temp xi e j =
     (if mask_valid A e j then ratcumsum A spec temp e j + real (j + 1) * xil_of xi
      else - (10 ^ 99))"

definition mult :: "absori \<Rightarrow> (nat \<Rightarrow> real) \<Rightarrow> real \<Rightarrow> real \<Rightarrow> nat \<Rightarrow> real" where
  "mult A spec temp xi e = Max ((\<lambda>j. mul0 A spec temp xi e j) ` {..<26})"

definition emul :: "absori \<Rightarrow> (nat \<Rightarrow> real) \<Rightarrow> real \<Rightarrow> real \<Rightarrow> nat \<Rightarrow> nat \<Rightarrow> real" where
  "emul A spec temp xi e j =
     (if mask_valid A e j then exp (mul0 A spec temp xi e j - mult A spec temp xi e) else 0)"

definition s_norm :: "absori \<Rightarrow> (nat \<Rightarrow> real) \<Rightarrow> real \<Rightarrow> real \<Rightarrow> nat \<Rightarrow> real" where
  "s_norm A spec temp xi e =
     (\<Sum>j<26. emul A spec temp xi e j) + exp (- mult A spec temp xi e)"

text \<open>The rows of \<^verbatim>\<open>num\<close> before the exponential: row 0, then the loop over \<open>j\<close>.\<close>

fun num_log :: "absori \<Rightarrow> (nat \<Rightarrow> real) \<Rightarrow> real \<Rightarrow> real \<Rightarrow> nat \<Rightarrow> nat \<Rightarrow> real" where
  "num_log A spec temp xi 0 e = - mult A spec temp xi e - ln (s_norm A spec temp xi e)"
| "num_log A spec temp xi (Suc j) e =
     num_log A spec temp xi j e + ratio A spec temp e j + xil_of xi"

definition calc_num :: "absori \<Rightarrow> (nat \<Rightarrow> real) \<Rightarrow> real \<Rightarrow> real \<Rightarrow> nat \<Rightarrow> nat \<Rightarrow> real" where
  "calc_num A spec temp xi j e =
     (if mask_valid A e j then exp (num_log A spec temp xi j e) else 0)"

text \<open>numpy's logarithm of a number that is not positive is \<open>-inf\<close> or nan, which the reals
  do not have: the model agrees with the code where every logarithm of \<^verbatim>\<open>_calc_num\<close> is
  taken of a positive number.\<close>

definition logs_defined :: "absori \<Rightarrow> (nat \<Rightarrow> real) \<Rightarrow> real \<Rightarrow> bool" where
  "logs_defined A spec temp =
     (\<forall>e<10. \<forall>s<26. arec A temp e s \<noteq> 0 \<longrightarrow>
          0 < 0.0000032749 * intgral A spec e s / arec A temp e s)"

subsection \<open>\<^verbatim>\<open>_interpolate_sigma\<close>\<close>

text \<open>\<^verbatim>\<open>numpy.searchsorted\<close> (side left) on a sorted array of \<open>n\<close> entries: the number of
  entries below \<open>v\<close>.\<close>

definition searchsorted :: "(nat \<Rightarrow> real) \<Rightarrow> nat \<Rightarrow> real \<Rightarrow> nat" where
  "searchsorted xs n v = length (filter (\<lambda>i. xs i < v) [0..<n])"

text \<open>\<^verbatim>\<open>scipy.interpolate.interp1d\<close> of kind linear over the 721 grid points, as its
  \<^verbatim>\<open>_call_linear\<close> computes it: the insertion index clipped to 1..720, then the chord
  between the two neighbours.  Its range check cannot fire in \<^verbatim>\<open>_interpolate_sigma\<close>, which
  hands it only energies between the first and the last grid point.\<close>

definition interp_sigma :: "(nat \<Rightarrow> real) \<Rightarrow> (nat \<Rightarrow> real) \<Rightarrow> real \<Rightarrow> real" where
  "interp_sigma be y e =
     (let idx = min (max (searchsorted be 721 e) 1) 720;
          lo = idx - 1;
          hi = idx;
          slope = (y hi - y lo) / (be hi - be lo)
      in slope * (e - be lo) + y lo)"

text \<open>The power-law extension above the grid; \<^verbatim>\<open>np.power(r, -3.0)\<close> is the inverse cube.\<close>

definition tail_scale :: "absori \<Rightarrow> real \<Rightarrow> real" where
  "tail_scale A e = 1 / (e / base_energy A 720) ^ 3"

definition sigma_tail :: "absori \<Rightarrow> real \<Rightarrow> nat \<Rightarrow> nat \<Rightarrow> real" where
  "sigma_tail A e s el = sigma A 720 s el * tail_scale A e"

text \<open>One energy sample (in eV).  The code assigns the rows of \<^verbatim>\<open>mask3\<close>, then those of
  \<^verbatim>\<open>mask1\<close>, then those of \<^verbatim>\<open>mask2\<close>, so a later mask wins.\<close>

definition sigma_at :: "absori \<Rightarrow> real \<Rightarrow> nat \<Rightarrow> nat \<Rightarrow> real" where
  "sigma_at A e s el =
     (if e < base_energy A 0 then sigma A 0 s el
      else if e > base_energy A 720 then sigma_tail A e s el
      else interp_sigma (base_energy A) (\<lambda>k. sigma A k s el) e)"

definition interpolate_sigma :: "absori \<Rightarrow> real list \<Rightarrow> (nat \<Rightarrow> nat \<Rightarrow> real) list" where
  "interpolate_sigma A ekev = map (\<lambda>ek. sigma_at A (1000 * ek)) ekev"

subsection \<open>\<^verbatim>\<open>_calc_opacity\<close> and \<^verbatim>\<open>Absori.evaluate\<close>\<close>

text \<open>\<^verbatim>\<open>np.copy\<close> allocates a new array object; the result is the new store and the address
  of the copy.\<close>

definition np_copy :: "store \<Rightarrow> nat \<Rightarrow> store \<times> nat" where
  "np_copy h r = (h @ [h ! r], length h)"

text \<open>\<^verbatim>\<open>a[lo:hi] *= c\<close> and \<^verbatim>\<open>a[-1] *= c\<close> on the array object at address \<open>r\<close>.\<close>

definition imul_slice :: "store \<Rightarrow> nat \<Rightarrow> nat \<Rightarrow> nat \<Rightarrow> real \<Rightarrow> store" where
  "imul_slice h r lo hi c =
     h[r := map (\<lambda>i. if lo \<le> i \<and> i < hi then (h ! r) ! i * c else (h ! r) ! i)
                [0..<length (h ! r)]]"

definition imul_last :: "store \<Rightarrow> nat \<Rightarrow> real \<Rightarrow> store" where
  "imul_last h r c = h[r := (h ! r)[length (h ! r) - 1 := (h ! r) ! (length (h ! r) - 1) * c]]"

text \<open>The three abundance lines shared by \<^verbatim>\<open>_calc_opacity\<close> and
  \<^verbatim>\<open>Integrate_Absori.evaluate\<close>; \<^verbatim>\<open>ab[2:-1]\<close> ends one before the last entry.\<close>

definition adjust_abundance :: "store \<Rightarrow> absori \<Rightarrow> real \<Rightarrow> real \<Rightarrow> store \<times> nat" where
  "adjust_abundance h A abundance fe_abundance =
     (let (h1, ab) = np_copy h (abundance_ref A);
          h2 = imul_slice h1 ab 2 (length (h1 ! ab) - 1) (10 powr abundance);
          h3 = imul_last h2 ab (10 powr fe_abundance)
      in (h3, ab))"

text \<open>\<^verbatim>\<open>np.sum(num * sigma, axis=(1, 2)) * 6.6e-5\<close> for one energy sample.\<close>

definition weighted_sum :: "(nat \<Rightarrow> nat \<Rightarrow> real) \<Rightarrow> (nat \<Rightarrow> nat \<Rightarrow> real) \<Rightarrow> real" where
  "weighted_sum num sg = (\<Sum>s<26. \<Sum>el<10. num s el * sg s el) * 0.000066"

definition calc_opacity ::
  "store \<Rightarrow> absori \<Rightarrow> real list \<Rightarrow> real \<Rightarrow> real \<Rightarrow> real \<Rightarrow> real \<Rightarrow> real \<Rightarrow> store \<times> real list" where
  "calc_opacity h A e temp xi gamma abundance fe_abundance =
     (let spec = calc_ion_spec A gamma;
          num = calc_num A spec temp xi;
          (h', ab) = adjust_abundance h A abundance fe_abundance;
          num = (\<lambda>s el. num s el * (h' ! ab) ! el);
          sg = interpolate_sigma A e
      in (h', map (weighted_sum num) sg))"

definition evaluate ::
  "store \<Rightarrow> absori \<Rightarrow> real list \<Rightarrow> real \<Rightarrow> real \<Rightarrow> real \<Rightarrow> real \<Rightarrow> real \<Rightarrow> real \<Rightarrow> real
     \<Rightarrow> store \<times> real list" where
  "evaluate h A x NH redshift temp xi gamma abundance fe_abundance =
     (let e = map (\<lambda>v. v * (1 + redshift)) x;
          (h', opacity) = calc_opacity h A e temp xi gamma abundance fe_abundance
      in (h', map (\<lambda>op. exp (- NH * op)) opacity))"

subsection \<open>\<^verbatim>\<open>Integrate_Absori.evaluate\<close>\<close>

definition omegam :: real where "omegam = 0.3"
definition omegal :: real where "omegal = 0.7"
definition h0 :: real where "h0 = 70"
definition cmpermpc :: real where "cmpermpc = 3.08568 * 10 ^ 24"
definition c_light :: real where "c_light = 299792.458"

text \<open>Python's \<^verbatim>\<open>int\<close> of a float truncates towards zero.\<close>

definition py_int :: "real \<Rightarrow> int" where
  "py_int r = (if 0 \<le> r then \<lfloor>r\<rfloor> else \<lceil>r\<rceil>)"

text \<open>The body of the loop over the shells, \<open>n\<close> rounds from the state \<open>(zz, taus)\<close>.\<close>

fun shells ::
  "absori \<Rightarrow> (nat \<Rightarrow> nat \<Rightarrow> real) \<Rightarrow> real list \<Rightarrow> real \<Rightarrow> real \<Rightarrow> real
     \<Rightarrow> nat \<Rightarrow> real \<Rightarrow> real list \<Rightarrow> real list" where
  "shells A num x n0 delta zsam 0 zz taus = taus"
| "shells A num x n0 delta zsam (Suc i) zz taus =
     (let z1 = zz + 1;
          n = n0 * z1 powr delta;
          zf = z1\<^sup>2 / sqrt (omegam * z1 ^ 3 + omegal);
          zf = zf * (zsam * c_light * n * cmpermpc / h0);
          sg = interpolate_sigma A (map (\<lambda>v. v * z1) x);
          xsec = map (\<lambda>g. weighted_sum num g * (1 / 10 ^ 22)) sg;
          taus = map (\<lambda>(t, xs). t + xs * zf) (zip taus xsec)
      in shells A num x n0 delta zsam i (zz + zsam) taus)"

text \<open>\<^verbatim>\<open>redshift / nz\<close> divides a float by the Python integer \<open>nz\<close> and raises
  \<^verbatim>\<open>ZeroDivisionError\<close> when \<open>nz\<close> is 0; \<^verbatim>\<open>range(nz)\<close> is empty for a negative \<open>nz\<close>.\<close>

definition evaluate_integrated ::
  "store \<Rightarrow> absori \<Rightarrow> real list \<Rightarrow> real \<Rightarrow> real \<Rightarrow> real \<Rightarrow> real \<Rightarrow> real \<Rightarrow> real \<Rightarrow> real \<Rightarrow> real
     \<Rightarrow> py_error + (store \<times> real list)" where
  "evaluate_integrated h A x n0 delta redshift temp xi gamma abundance fe_abundance =
     (let nz = py_int (redshift / 0.02)
      in if nz = 0 then Inl ZeroDivisionError
         else
          (let zsam = redshift / real_of_int nz;
               zz = zsam * 0.5;
               spec = calc_ion_spec A gamma;
               num = calc_num A spec temp xi;
               (h', ab) = adjust_abundance h A abundance fe_abundance;
               num = (\<lambda>s el. num s el * (h' ! ab) ! el);
               taus = replicate (length x) 0;
               taus = shells A num x n0 delta zsam (nat nz) zz taus
           in Inr (h', map (\<lambda>t. exp (- t)) taus)))"

subsection \<open>Derived quantities used in the statements\<close>

text \<open>The value the recursion of \<^verbatim>\<open>_calc_num\<close> gives row \<open>atomicnumber[e]\<close>, the fully
  stripped ion: for an element below iron the loop computes this entry and the final mask
  sets it to 0; for iron it is the row after the last one.\<close>

definition stripped_fraction :: "absori \<Rightarrow> (nat \<Rightarrow> real) \<Rightarrow> real \<Rightarrow> real \<Rightarrow> nat \<Rightarrow> real" where
  "stripped_fraction A spec temp xi e = exp (num_log A spec temp xi (atomicnumber A e) e)"

text \<open>The population-weighted mean ionization stage over the rows of \<^verbatim>\<open>num\<close>, and the same
  mean with the stripped fraction counted at stage \<open>atomicnumber[e]\<close>.\<close>

definition mean_stage :: "absori \<Rightarrow> (nat \<Rightarrow> real) \<Rightarrow> real \<Rightarrow> real \<Rightarrow> nat \<Rightarrow> real" where
  "mean_stage A spec temp xi e = (\<Sum>j<26. real j * calc_num A spec temp xi j e)"

definition mean_stage_full :: "absori \<Rightarrow> (nat \<Rightarrow> real) \<Rightarrow> real \<Rightarrow> real \<Rightarrow> nat \<Rightarrow> real" where
  "mean_stage_full A spec temp xi e =
     mean_stage A spec temp xi e
     + real (atomicnumber A e) * stripped_fraction A spec temp xi e"

text \<open>The unnormalised population of stage \<open>j\<close>, relative to the neutral stage, and the
  sum of these over the stages 0 to \<open>atomicnumber[e]\<close>.\<close>

definition weight :: "absori \<Rightarrow> (nat \<Rightarrow> real) \<Rightarrow> real \<Rightarrow> real \<Rightarrow> nat \<Rightarrow> nat \<Rightarrow> real" where
  "weight A spec temp xi e j = exp ((\<Sum>i<j. ratio A spec temp e i) + real j * xil_of xi)"

definition total_weight :: "absori \<Rightarrow> (nat \<Rightarrow> real) \<Rightarrow> real \<Rightarrow> real \<Rightarrow> nat \<Rightarrow> real" where
  "total_weight A spec temp xi e = (\<Sum>j\<le>atomicnumber A e. weight A spec temp xi e j)"

text \<open>The chord of the cross-section table between the grid points \<open>k\<close> and \<open>k + 1\<close>: the
  piecewise-linear interpolation of the specification on that interval.\<close>

definition chord :: "absori \<Rightarrow> nat \<Rightarrow> nat \<Rightarrow> nat \<Rightarrow> real \<Rightarrow> real" where
  "chord A k s el E =
     sigma A k s el
     + (sigma A (Suc k) s el - sigma A k s el) * (E - base_energy A k)
       / (base_energy A (Suc k) - base_energy A k)"

text \<open>\<^verbatim>\<open>self._abundance\<close> refers to an array of the store, which has the 10 entries that
  \<^verbatim>\<open>_load_abundance\<close> gives it.\<close>

definition store_ok :: "store \<Rightarrow> absori \<Rightarrow> bool" where
  "store_ok h A = (abundance_ref A < length h \<and> length (h ! abundance_ref A) = 10)"

text \<open>The abundance vector as the specification adjusts it: H and He (0, 1) as they are,
  C to S (2 to 8) by the metals offset, Fe (9) by the iron offset.\<close>

definition adjusted :: "real list \<Rightarrow> real \<Rightarrow> real \<Rightarrow> real list" where
  "adjusted ab abundance fe_abundance =
     map (\<lambda>i. if i < 2 then ab ! i
               else if i < 9 then ab ! i * 10 powr abundance
               else ab ! i * 10 powr fe_abundance) [0..<10]"

subsection \<open>A table to evaluate on\<close>

text \<open>The atomic numbers of the ten elements of \<^verbatim>\<open>_absori_elements\<close> (H, He, C, N, O, Ne,
  Mg, Si, S, Fe), one recombination coefficient set to 1, every cross-section 1, and the
  grid 1, 2, ..., 721 eV.  The store holds one array, the abundances.\<close>

definition ref_atomicnumber :: "nat \<Rightarrow> nat" where
  "ref_atomicnumber e = (if e < 10 then [1, 2, 6, 7, 8, 10, 12, 14, 16, 26] ! e else 1)"

definition demo :: absori where
  "demo = \<lparr>ion = (\<lambda>e s k. if k = 1 then 1 else 0),
           sigma = (\<lambda>k s e. 1),
           atomicnumber = ref_atomicnumber,
           base_energy = (\<lambda>k. real k + 1),
           abundance_ref = 0\<rparr>"

definition demo_store :: store where
  "demo_store = [[1, 0.1, 0.01, 0.01, 0.01, 0.01, 0.01, 0.01, 0.01, 0.001]]"

definition flat_spec :: "nat \<Rightarrow> real" where
  "flat_spec k = 1"

section \<open>Properties\<close>

subsection \<open>The closed form of \<^verbatim>\<open>_calc_num\<close>\<close>

lemma weight_pos: "0 < weight A spec temp xi e j"
  by (simp add: weight_def)

lemma total_weight_pos: "0 < total_weight A spec temp xi e"
  unfolding total_weight_def by (rule sum_pos) (simp_all add: weight_pos)

lemma num_log_eq:
  "num_log A spec temp xi j e =
     - mult A spec temp xi e - ln (s_norm A spec temp xi e)
     + ((\<Sum>i<j. ratio A spec temp e i) + real j * xil_of xi)"
  by (induction j) (simp_all add: algebra_simps)

lemma mul0_valid:
  "j < atomicnumber A e \<Longrightarrow>
     exp (mul0 A spec temp xi e j) = weight A spec temp xi e (Suc j)"
  by (simp add: mul0_def mask_valid_def ratcumsum_def weight_def lessThan_Suc_atMost)

lemma sum_emul:
  assumes "atomicnumber A e \<le> 26"
  shows "(\<Sum>j<26. emul A spec temp xi e j) =
           exp (- mult A spec temp xi e) * (\<Sum>j<atomicnumber A e. weight A spec temp xi e (Suc j))"
proof -
  have "(\<Sum>j<26. emul A spec temp xi e j) =
          (\<Sum>j<atomicnumber A e. emul A spec temp xi e j)"
    using assms by (intro sum.mono_neutral_right) (auto simp: emul_def mask_valid_def)
  also have "\<dots> = (\<Sum>j<atomicnumber A e.
                 exp (- mult A spec temp xi e) * weight A spec temp xi e (Suc j))"
    by (intro sum.cong refl)
       (simp add: emul_def mask_valid_def exp_diff mul0_valid field_simps exp_minus)
  finally show ?thesis by (simp add: sum_distrib_left)
qed

lemma s_norm_eq:
  assumes "atomicnumber A e \<le> 26"
  shows "s_norm A spec temp xi e = exp (- mult A spec temp xi e) * total_weight A spec temp xi e"
proof -
  have "total_weight A spec temp xi e =
          weight A spec temp xi e 0 + (\<Sum>j<atomicnumber A e. weight A spec temp xi e (Suc j))"
    unfolding total_weight_def by (simp add: sum.atMost_shift)
  moreover have "weight A spec temp xi e 0 = 1" by (simp add: weight_def)
  ultimately show ?thesis
    by (simp add: s_norm_def sum_emul [OF assms] algebra_simps)
qed

lemma exp_num_log:
  assumes "atomicnumber A e \<le> 26"
  shows "exp (num_log A spec temp xi j e) =
           weight A spec temp xi e j / total_weight A spec temp xi e"
proof -
  have pos: "0 < s_norm A spec temp xi e"
    by (simp add: s_norm_eq [OF assms] total_weight_pos)
  have "exp (num_log A spec temp xi j e) =
          exp (- mult A spec temp xi e) / s_norm A spec temp xi e * weight A spec temp xi e j"
    using pos by (simp add: num_log_eq exp_add exp_diff weight_def)
  also have "\<dots> = weight A spec temp xi e j / total_weight A spec temp xi e"
    by (simp add: s_norm_eq [OF assms])
  finally show ?thesis .
qed

lemma calc_num_valid:
  assumes "atomicnumber A e \<le> 26" "j < atomicnumber A e"
  shows "calc_num A spec temp xi j e = weight A spec temp xi e j / total_weight A spec temp xi e"
  using assms by (simp add: calc_num_def mask_valid_def exp_num_log)

lemma calc_num_invalid: "atomicnumber A e \<le> j \<Longrightarrow> calc_num A spec temp xi j e = 0"
  by (simp add: calc_num_def mask_valid_def)

lemma calc_num_nonneg: "0 \<le> calc_num A spec temp xi j e"
  by (simp add: calc_num_def)

lemma stripped_fraction_eq:
  "atomicnumber A e \<le> 26 \<Longrightarrow>
     stripped_fraction A spec temp xi e =
       weight A spec temp xi e (atomicnumber A e) / total_weight A spec temp xi e"
  by (simp add: stripped_fraction_def exp_num_log)

lemma sum_calc_num:
  assumes "atomicnumber A e \<le> 26"
  shows "(\<Sum>j<26. calc_num A spec temp xi j e) + stripped_fraction A spec temp xi e = 1"
proof -
  have "(\<Sum>j<26. calc_num A spec temp xi j e) = (\<Sum>j<atomicnumber A e. calc_num A spec temp xi j e)"
    using assms by (intro sum.mono_neutral_right) (auto simp: calc_num_invalid)
  also have "\<dots> = (\<Sum>j<atomicnumber A e. weight A spec temp xi e j / total_weight A spec temp xi e)"
    by (intro sum.cong refl) (simp add: calc_num_valid assms)
  also have "\<dots> = (\<Sum>j<atomicnumber A e. weight A spec temp xi e j) / total_weight A spec temp xi e"
    by (simp add: sum_divide_distrib)
  finally have "(\<Sum>j<26. calc_num A spec temp xi j e) + stripped_fraction A spec temp xi e
     = ((\<Sum>j<atomicnumber A e. weight A spec temp xi e j) + weight A spec temp xi e (atomicnumber A e))
         / total_weight A spec temp xi e"
    by (simp add: stripped_fraction_eq assms add_divide_distrib)
  also have "\<dots> = 1"
    using total_weight_pos [of A spec temp xi e]
    by (simp add: total_weight_def lessThan_Suc_atMost [symmetric])
  finally show ?thesis .
qed

lemma stripped_fraction_pos: "0 < stripped_fraction A spec temp xi e"
  by (simp add: stripped_fraction_def)

subsection \<open>Facts about the table to evaluate on\<close>

lemma demo_fields [simp]:
  "ion demo e s k = (if k = 1 then 1 else 0)"
  "sigma demo k s e = 1"
  "atomicnumber demo = ref_atomicnumber"
  "base_energy demo k = real k + 1"
  "abundance_ref demo = 0"
  by (simp_all add: demo_def)

lemma ref_atomicnumber_bounds: "1 \<le> ref_atomicnumber e \<and> ref_atomicnumber e \<le> 26"
proof (cases "e < 10")
  case True
  then have "e \<in> {0, 1, 2, 3, 4, 5, 6, 7, 8, 9}" by auto
  then show ?thesis by (auto simp: ref_atomicnumber_def)
next
  case False
  then show ?thesis by (simp add: ref_atomicnumber_def)
qed

lemma atomic_ok_demo: "atomic_ok demo"
  using ref_atomicnumber_bounds by (auto simp: atomic_ok_def)

lemma grid_ok_demo: "grid_ok demo"
  by (simp add: grid_ok_def)

lemma intgral_demo: "intgral demo flat_spec e s = 721"
  by (simp add: intgral_def flat_spec_def)

lemma arec_demo_pos: "0 < arec demo 10000 e s"
proof -
  let ?z = "real ((ref_atomicnumber e)\<^sup>2)"
  have z: "1 \<le> ?z"
    using ref_atomicnumber_bounds [of e] by (simp add: Suc_le_eq)
  have zp: "0 < ?z" using z by linarith
  have c: "0 < (0.001033::real)" by simp
  have "0 \<le> ln (15.8 * ?z)" using z by simp
  moreover have "0 \<le> 1 / (6 * (15.8 * ?z))" using z by simp
  moreover have "(0::real) < 1.735" by simp
  ultimately have t: "0 < 1.735 + ln (15.8 * ?z) + 1 / (6 * (15.8 * ?z))" by linarith
  have "0 < 0.001033 * ?z * (1.735 + ln (15.8 * ?z) + 1 / (6 * (15.8 * ?z)))"
    by (intro mult_pos_pos c zp t)
  then show ?thesis
    by (simp add: arec_def Let_def)
qed

lemma logs_defined_demo: "logs_defined demo flat_spec 10000"
  using arec_demo_pos by (simp add: logs_defined_def intgral_demo)

subsection \<open>The populations of one element\<close>

text \<open>
  C1 (as amended).  For every temperature above 0 and every ionization parameter, also
  one that is not positive, and for each of the 10 elements: every entry of the
  population matrix at an invalid stage (stage at least the atomic number) is exactly 0,
  and the sum over all stages is 1 minus the fraction of the fully stripped ion, which
  the matrix does not hold.
\<close>

theorem calc_num_population_sum:
  assumes "atomic_ok A" and "e < 10" and "0 < temp" and "logs_defined A spec temp"
  shows "(\<Sum>j<26. calc_num A spec temp xi j e) = 1 - stripped_fraction A spec temp xi e
       \<and> (\<forall>j<26. atomicnumber A e \<le> j \<longrightarrow> calc_num A spec temp xi j e = 0)"
proof -
  from assms(1,2) have Z: "atomicnumber A e \<le> 26"
    by (simp add: atomic_ok_def)
  have "(\<Sum>j<26. calc_num A spec temp xi j e) = 1 - stripped_fraction A spec temp xi e"
    using sum_calc_num [OF Z, of spec temp xi] by linarith
  then show ?thesis
    by (simp add: calc_num_invalid)
qed

theorem calc_num_population_sum_witness:
  "atomic_ok demo \<and> (1::nat) < 10 \<and> (0::real) < 10000 \<and> logs_defined demo flat_spec 10000
   \<and> (\<Sum>j<26. calc_num demo flat_spec 10000 0 j 1) = 1 - stripped_fraction demo flat_spec 10000 0 1
   \<and> calc_num demo flat_spec 10000 0 2 1 = 0"
proof -
  have h: "atomicnumber demo 1 \<le> 2"
    by (simp add: ref_atomicnumber_def)
  have e: "(1::nat) < 10" and t: "(0::real) < 10000" by simp_all
  from calc_num_population_sum [OF atomic_ok_demo e t logs_defined_demo, of 0] h
  show ?thesis
    using atomic_ok_demo logs_defined_demo by simp
qed

text \<open>Hydrogen at 10000 K and \<open>xi = 1\<close>: the one valid stage holds less than the whole
  population.\<close>

theorem calc_num_population_sum_counterexample:
  "\<not> (\<Sum>j<26. calc_num demo flat_spec 10000 1 j 0) = 1"
proof -
  have "atomicnumber demo 0 \<le> 26"
    by (simp add: ref_atomicnumber_def)
  from sum_calc_num [OF this, of flat_spec 10000 1]
       stripped_fraction_pos [of demo flat_spec 10000 1 0]
  show ?thesis by linarith
qed

subsection \<open>Redshift in \<^verbatim>\<open>Absori.evaluate\<close>\<close>

text \<open>
  C10.  Redshift enters \<^verbatim>\<open>Absori.evaluate\<close> only by rescaling the input energies: the
  evaluation of \<open>x\<close> at redshift \<open>z\<close> is the evaluation of \<open>x * (1 + z)\<close> at redshift 0,
  with all other parameters held fixed.
\<close>

theorem evaluate_redshift_rescales:
  "evaluate h A x NH z temp xi gamma abundance fe_abundance =
   evaluate h A (map (\<lambda>v. v * (1 + z)) x) NH 0 temp xi gamma abundance fe_abundance"
  by (simp add: evaluate_def comp_def)

subsection \<open>The bin widths\<close>

text \<open>
  C9 (as amended).  The bin-width array over the 721-point grid: at every interior index
  \<open>i\<close> from 1 to 719 it is half the distance between the two neighbours,
  \<open>(baseEnergy[i+1] - baseEnergy[i-1]) / 2\<close>; the two endpoint entries are the full widths
  of the first and of the last interval.  It depends on the grid alone.
\<close>

theorem deltaE_widths:
  "(\<forall>i. 1 \<le> i \<and> i \<le> 719 \<longrightarrow>
       deltaE (base_energy A) i = (base_energy A (i + 1) - base_energy A (i - 1)) / 2)
   \<and> deltaE (base_energy A) 0 = base_energy A 1 - base_energy A 0
   \<and> deltaE (base_energy A) 720 = base_energy A 720 - base_energy A 719"
  by (simp add: deltaE_def)

theorem deltaE_widths_witness:
  "(1::nat) \<le> 5 \<and> (5::nat) \<le> 719
   \<and> deltaE (base_energy demo) 5 = (base_energy demo (5 + 1) - base_energy demo (5 - 1)) / 2
   \<and> deltaE (base_energy demo) 0 = base_energy demo 1 - base_energy demo 0
   \<and> deltaE (base_energy demo) 720 = base_energy demo 720 - base_energy demo 719"
  using deltaE_widths [of demo] by simp

text \<open>On the grid 1, 2, ..., 721 the first entry is 1, not the trapezoidal end weight 1/2.\<close>

theorem deltaE_endpoint_counterexample:
  "\<not> deltaE (base_energy demo) 0 = (base_energy demo 1 - base_energy demo 0) / 2"
  by (simp add: deltaE_def)

subsection \<open>The redshift integration\<close>

lemma py_int_small: "0 \<le> r \<Longrightarrow> r < 1 \<Longrightarrow> py_int r = 0"
  by (simp add: py_int_def floor_eq_iff)

lemma evaluate_integrated_small_redshift:
  "0 \<le> z \<Longrightarrow> z < 0.02 \<Longrightarrow>
     evaluate_integrated h A x n0 delta z temp xi gamma abundance fe_abundance
       = Inl ZeroDivisionError"
  by (simp add: evaluate_integrated_def py_int_small)

lemma zip_replicate_zero:
  "map (\<lambda>(t, xs). t + xs * 0) (zip (replicate (length ys) (0::real)) ys) = replicate (length ys) 0"
  by (induction ys) simp_all

lemma shells_n0_zero:
  "shells A num x 0 delta zsam n zz (replicate (length x) 0) = replicate (length x) 0"
proof (induction n arbitrary: zz)
  case 0
  show ?case by simp
next
  case (Suc n)
  have "map (\<lambda>(t, xs). t + xs * 0)
          (zip (replicate (length x) (0::real))
               (map (\<lambda>g. weighted_sum num g * (1 / 10 ^ 22))
                    (interpolate_sigma A (map (\<lambda>v. v * (zz + 1)) x))))
        = replicate (length x) 0"
    using zip_replicate_zero
      [of "map (\<lambda>g. weighted_sum num g * (1 / 10 ^ 22))
             (interpolate_sigma A (map (\<lambda>v. v * (zz + 1)) x))"]
    by (simp add: interpolate_sigma_def)
  then show ?case
    using Suc.IH by (simp add: Let_def)
qed

lemma evaluate_integrated_n0_zero:
  assumes "0.02 \<le> z"
  shows "\<exists>h'. evaluate_integrated h A x 0 delta z temp xi gamma abundance fe_abundance
           = Inr (h', replicate (length x) 1)"
proof -
  have "1 \<le> z / 0.02" using assms by simp
  then have "1 \<le> py_int (z / 0.02)"
    by (simp add: py_int_def le_floor_iff)
  then show ?thesis
    by (simp add: evaluate_integrated_def Let_def shells_n0_zero split: prod.splits)
qed

text \<open>
  C2.  With the source redshift below 0.02 the number of shells is 0; the claim has the
  evaluation return transmission 1 without a division fault.  The code divides by the
  number of shells first: at redshift 0, the declared initial value, it raises.
\<close>

theorem evaluate_integrated_below_threshold:
  "evaluate_integrated demo_store demo [1] 0.0001 0 0 10000 1 2 0 0 = Inl ZeroDivisionError"
  by (simp add: evaluate_integrated_small_redshift)

text \<open>
  C3.  With local density 0 the claim has transmission 1 at every redshift from 0 on.
  From 0.02 on the code returns it (\<open>evaluate_integrated_n0_zero\<close>); below, the same
  division raises.
\<close>

theorem evaluate_integrated_n0_zero_small_redshift:
  "evaluate_integrated demo_store demo [1] 0 0 0.01 10000 1 2 0 0 = Inl ZeroDivisionError"
  by (simp add: evaluate_integrated_small_redshift)

subsection \<open>The abundance offsets\<close>

lemma adjust_abundance_eq:
  assumes "store_ok h A"
  shows "adjust_abundance h A a f = (h @ [adjusted (h ! abundance_ref A) a f], length h)"
proof -
  let ?ab = "h ! abundance_ref A"
  have r: "abundance_ref A < length h" and n: "length ?ab = 10"
    using assms by (simp_all add: store_ok_def)
  have 1: "np_copy h (abundance_ref A) = (h @ [?ab], length h)"
    by (simp add: np_copy_def)
  have 2: "imul_slice (h @ [?ab]) (length h) 2 9 (10 powr a)
             = h @ [map (\<lambda>i. if 2 \<le> i \<and> i < 9 then ?ab ! i * 10 powr a else ?ab ! i) [0..<10]]"
    by (simp add: imul_slice_def n)
  have 3: "imul_last (h @ [map (\<lambda>i. if 2 \<le> i \<and> i < 9 then ?ab ! i * 10 powr a else ?ab ! i) [0..<10]])
             (length h) (10 powr f)
           = h @ [adjusted ?ab a f]"
    by (simp add: imul_last_def adjusted_def upt_rec numeral_eq_Suc)
  show ?thesis
    by (simp add: adjust_abundance_def 1 2 3 n)
qed

lemma fst_calc_opacity:
  "store_ok h A \<Longrightarrow>
     fst (calc_opacity h A e temp xi gamma a f) = h @ [adjusted (h ! abundance_ref A) a f]"
  by (simp add: calc_opacity_def Let_def adjust_abundance_eq)

lemma fst_evaluate:
  "store_ok h A \<Longrightarrow>
     fst (evaluate h A x NH z temp xi gamma a f) = h @ [adjusted (h ! abundance_ref A) a f]"
  by (simp add: evaluate_def Let_def fst_calc_opacity split: prod.splits)
     (metis fst_calc_opacity fst_conv)

subsection \<open>The cross-section interpolation\<close>

lemma grid_mono:
  assumes "grid_ok A"
  shows "i < j \<Longrightarrow> j \<le> 720 \<Longrightarrow> base_energy A i < base_energy A j"
proof (induction j)
  case 0
  then show ?case by simp
next
  case (Suc j)
  have step: "base_energy A j < base_energy A (Suc j)"
    using assms Suc.prems by (simp add: grid_ok_def)
  show ?case
  proof (cases "i = j")
    case True
    with step show ?thesis by simp
  next
    case False
    with Suc have "base_energy A i < base_energy A j" by simp
    with step show ?thesis by linarith
  qed
qed

lemma grid_mono_le:
  "grid_ok A \<Longrightarrow> i \<le> j \<Longrightarrow> j \<le> 720 \<Longrightarrow> base_energy A i \<le> base_energy A j"
  using grid_mono [of A i j] by (cases "i = j") (simp_all add: less_imp_le)

lemma grid_pos: "grid_ok A \<Longrightarrow> k \<le> 720 \<Longrightarrow> 0 < base_energy A k"
  using grid_mono_le [of A 0 k] by (simp add: grid_ok_def)

lemma searchsorted_eq:
  assumes "m \<le> n" and "\<And>i. i < m \<Longrightarrow> xs i < v" and "\<And>i. m \<le> i \<Longrightarrow> i < n \<Longrightarrow> \<not> xs i < v"
  shows "searchsorted xs n v = m"
proof -
  have "[0..<n] = [0..<m] @ [m..<n]"
    using assms(1) by (metis le_add_diff_inverse upt_add_eq_append zero_le)
  moreover have "filter (\<lambda>i. xs i < v) [0..<m] = [0..<m]"
    using assms(2) by (simp add: filter_id_conv)
  moreover have "filter (\<lambda>i. xs i < v) [m..<n] = []"
    using assms(3) by (simp add: filter_empty_conv)
  ultimately show ?thesis
    by (simp add: searchsorted_def)
qed

lemma searchsorted_grid_inside:
  assumes "grid_ok A" and "k < 720" and "base_energy A k < e" and "e \<le> base_energy A (Suc k)"
  shows "searchsorted (base_energy A) 721 e = Suc k"
proof (rule searchsorted_eq)
  show "Suc k \<le> 721" using assms(2) by simp
next
  fix i assume "i < Suc k"
  then have "base_energy A i \<le> base_energy A k"
    using assms(1,2) by (intro grid_mono_le) simp_all
  with assms(3) show "base_energy A i < e" by linarith
next
  fix i assume "Suc k \<le> i" "i < 721"
  then have "base_energy A (Suc k) \<le> base_energy A i"
    using assms(1) by (intro grid_mono_le) simp_all
  with assms(4) show "\<not> base_energy A i < e" by linarith
qed

lemma searchsorted_grid_point:
  assumes "grid_ok A" and "k \<le> 720"
  shows "searchsorted (base_energy A) 721 (base_energy A k) = k"
proof (rule searchsorted_eq)
  show "k \<le> 721" using assms(2) by simp
next
  fix i assume "i < k"
  then show "base_energy A i < base_energy A k"
    using assms by (intro grid_mono) simp_all
next
  fix i assume "k \<le> i" "i < 721"
  then have "base_energy A k \<le> base_energy A i"
    using assms(1) by (intro grid_mono_le) simp_all
  then show "\<not> base_energy A i < base_energy A k" by linarith
qed

lemma interp_sigma_grid_point:
  assumes "grid_ok A" and "k \<le> 720"
  shows "interp_sigma (base_energy A) y (base_energy A k) = y k"
proof (cases "k = 0")
  case True
  then show ?thesis
    using searchsorted_grid_point [OF assms] by (simp add: interp_sigma_def)
next
  case False
  then have "base_energy A (k - 1) < base_energy A k"
    using assms by (intro grid_mono) simp_all
  moreover have "min (max k 1) 720 = k" using False assms(2) by simp
  ultimately show ?thesis
    using searchsorted_grid_point [OF assms] by (simp add: interp_sigma_def)
qed

lemma interp_sigma_chord:
  assumes "grid_ok A" and "k < 720" and "base_energy A k \<le> e" and "e \<le> base_energy A (Suc k)"
  shows "interp_sigma (base_energy A) (\<lambda>k. sigma A k s el) e = chord A k s el e"
proof (cases "e = base_energy A k")
  case True
  then show ?thesis
    using interp_sigma_grid_point [OF assms(1), of k] assms(2) by (simp add: chord_def)
next
  case False
  with assms(3) have "base_energy A k < e" by simp
  from searchsorted_grid_inside [OF assms(1,2) this assms(4)]
  have "searchsorted (base_energy A) 721 e = Suc k" .
  moreover have "min (max (Suc k) 1) 720 = Suc k" using assms(2) by simp
  ultimately show ?thesis
    by (simp add: interp_sigma_def chord_def)
qed

lemma bracket_exists:
  "be 0 \<le> (E::real) \<Longrightarrow> E \<le> be (Suc n) \<Longrightarrow> \<exists>k\<le>n. be k \<le> E \<and> E \<le> be (Suc k)"
proof (induction n)
  case 0
  then show ?case by auto
next
  case (Suc n)
  show ?case
  proof (cases "E \<le> be (Suc n)")
    case True
    with Suc obtain k where "k \<le> n" "be k \<le> E \<and> E \<le> be (Suc k)" by blast
    then show ?thesis by (intro exI [of _ k]) simp
  next
    case False
    with Suc.prems show ?thesis by (intro exI [of _ "Suc n"]) simp
  qed
qed

lemma tail_powr:
  assumes "grid_ok A" and "base_energy A 720 < E"
  shows "sigma_tail A E s el = sigma A 720 s el * (E / base_energy A 720) powr (- 3)"
proof -
  have "0 < base_energy A 720" using assms(1) by (simp add: grid_pos)
  with assms(2) have "0 < E / base_energy A 720" by simp
  then have "(E / base_energy A 720) powr (- 3) = 1 / (E / base_energy A 720) ^ 3"
    by (simp add: powr_minus_divide)
  then show ?thesis by (simp add: sigma_tail_def tail_scale_def)
qed

lemma sigma_at_inside:
  assumes "grid_ok A" and "k < 720" and "base_energy A k \<le> E" and "E \<le> base_energy A (Suc k)"
  shows "sigma_at A E s el = chord A k s el E"
proof -
  have "base_energy A 0 \<le> base_energy A k"
    using assms(1,2) by (intro grid_mono_le) simp_all
  moreover have "base_energy A (Suc k) \<le> base_energy A 720"
    using assms(1,2) by (intro grid_mono_le) simp_all
  ultimately have "\<not> E < base_energy A 0" "\<not> E > base_energy A 720"
    using assms(3,4) by linarith+
  then show ?thesis
    by (simp add: sigma_at_def interp_sigma_chord [OF assms])
qed

lemma sigma_at_above:
  assumes "grid_ok A" and "base_energy A 720 < E"
  shows "sigma_at A E s el = sigma A 720 s el * (E / base_energy A 720) powr (- 3)"
proof -
  have "base_energy A 0 \<le> base_energy A 720"
    using assms(1) by (intro grid_mono_le) simp_all
  with assms(2) have "\<not> E < base_energy A 0" by linarith
  with assms(2) show ?thesis
    by (simp add: sigma_at_def tail_powr [OF assms])
qed

lemma sigma_at_below: "E < base_energy A 0 \<Longrightarrow> sigma_at A E s el = sigma A 0 s el"
  by (simp add: sigma_at_def)

text \<open>
  C4.  Every energy sample \<open>E\<close> (in eV, after the conversion by 1000) falls in exactly one
  of three regimes.  From \<open>baseEnergy[0]\<close> to \<open>baseEnergy[720]\<close> the result is the
  piecewise-linear interpolation of the table: \<open>E\<close> lies between two neighbouring grid
  points, and on any such interval the result is the chord between the two tabulated
  values.  Above \<open>baseEnergy[720]\<close> it is the last tabulated value times
  \<open>(E / baseEnergy[720])\<close> to the power -3.  Below \<open>baseEnergy[0]\<close> it is the first
  tabulated value.  The grid is increasing, so no sample is both above and below.
\<close>

theorem interpolate_sigma_regimes:
  assumes "grid_ok A" and "i < length ekev" and "E = 1000 * ekev ! i"
  shows "(base_energy A 0 \<le> E \<and> E \<le> base_energy A 720 \<longrightarrow>
            (\<exists>k<720. base_energy A k \<le> E \<and> E \<le> base_energy A (Suc k)) \<and>
            (\<forall>k<720. base_energy A k \<le> E \<and> E \<le> base_energy A (Suc k) \<longrightarrow>
                (interpolate_sigma A ekev ! i) s el = chord A k s el E))
       \<and> (base_energy A 720 < E \<longrightarrow>
            (interpolate_sigma A ekev ! i) s el
              = sigma A 720 s el * (E / base_energy A 720) powr (- 3))
       \<and> (E < base_energy A 0 \<longrightarrow> (interpolate_sigma A ekev ! i) s el = sigma A 0 s el)
       \<and> \<not> (base_energy A 720 < E \<and> E < base_energy A 0)"
proof -
  have v: "(interpolate_sigma A ekev ! i) s el = sigma_at A E s el"
    using assms(2,3) by (simp add: interpolate_sigma_def)
  have le: "base_energy A 0 \<le> base_energy A 720"
    using assms(1) by (intro grid_mono_le) simp_all
  have ex: "\<exists>k<720. base_energy A k \<le> E \<and> E \<le> base_energy A (Suc k)"
    if "base_energy A 0 \<le> E" "E \<le> base_energy A 720"
  proof -
    from that have "E \<le> base_energy A (Suc 719)" by simp
    from bracket_exists [OF that(1) this]
    obtain k where "k \<le> 719" "base_energy A k \<le> E \<and> E \<le> base_energy A (Suc k)" by blast
    then show ?thesis by (intro exI [of _ k]) simp
  qed
  show ?thesis
    using le ex by (auto simp: v sigma_at_inside [OF assms(1)] sigma_at_above [OF assms(1)]
        sigma_at_below)
qed

theorem interpolate_sigma_regimes_witness:
  "grid_ok demo \<and> (2::nat) < length [0.0015::real, 1, 0.0005]
   \<and> base_energy demo 0 \<le> 1.5 \<and> 1.5 \<le> base_energy demo 720
   \<and> base_energy demo 0 \<le> 1.5 \<and> 1.5 \<le> base_energy demo (Suc 0)
   \<and> (interpolate_sigma demo [0.0015, 1, 0.0005] ! 0) 0 0 = chord demo 0 0 0 1.5
   \<and> base_energy demo 720 < 1000
   \<and> (interpolate_sigma demo [0.0015, 1, 0.0005] ! 1) 0 0
        = sigma demo 720 0 0 * (1000 / base_energy demo 720) powr (- 3)
   \<and> 0.5 < base_energy demo 0
   \<and> (interpolate_sigma demo [0.0015, 1, 0.0005] ! 2) 0 0 = sigma demo 0 0 0"
proof -
  let ?x = "[0.0015::real, 1, 0.0005]"
  have a: "(0::nat) < length ?x" and b: "(1::nat) < length ?x" and c: "(2::nat) < length ?x"
    by simp_all
  have ea: "(1.5::real) = 1000 * ?x ! 0"
   and eb: "(1000::real) = 1000 * ?x ! 1"
   and ec: "(0.5::real) = 1000 * ?x ! 2" by simp_all
  have r1: "base_energy demo 0 \<le> 1.5 \<and> 1.5 \<le> base_energy demo 720" by simp
  have r2: "base_energy demo 0 \<le> 1.5 \<and> 1.5 \<le> base_energy demo (Suc 0)" by simp
  have r3: "base_energy demo 720 < 1000" by simp
  have r4: "0.5 < base_energy demo 0" by simp
  have k: "(0::nat) < 720" by simp
  note A = interpolate_sigma_regimes [OF grid_ok_demo a ea, of 0 0]
  note B = interpolate_sigma_regimes [OF grid_ok_demo b eb, of 0 0]
  note C = interpolate_sigma_regimes [OF grid_ok_demo c ec, of 0 0]
  from A [THEN conjunct1, THEN mp, OF r1]
  have "\<forall>k<720. base_energy demo k \<le> 1.5 \<and> 1.5 \<le> base_energy demo (Suc k) \<longrightarrow>
          (interpolate_sigma demo ?x ! 0) 0 0 = chord demo k 0 0 1.5"
    by (rule conjunct2)
  from this [THEN spec, of 0, THEN mp, OF k, THEN mp, OF r2]
  have 1: "(interpolate_sigma demo ?x ! 0) 0 0 = chord demo 0 0 0 1.5" .
  from B [THEN conjunct2, THEN conjunct1, THEN mp, OF r3]
  have 2: "(interpolate_sigma demo ?x ! 1) 0 0
             = sigma demo 720 0 0 * (1000 / base_energy demo 720) powr (- 3)" .
  from C [THEN conjunct2, THEN conjunct2, THEN conjunct1, THEN mp, OF r4]
  have 3: "(interpolate_sigma demo ?x ! 2) 0 0 = sigma demo 0 0 0" .
  show ?thesis
    by (intro conjI grid_ok_demo c 1 2 3 r3 r4 conjunct1 [OF r1] conjunct2 [OF r1]
          conjunct1 [OF r2] conjunct2 [OF r2])
qed



subsection \<open>The abundance offsets leave the stored table alone\<close>

text \<open>
  C8.  An evaluation applies the abundance offsets to a copy of the stored abundance
  vector.  The stored array is the same after the call as before (so it is after any
  number of calls, the store staying well-formed); the copy, a new array of the store,
  holds the entries 2 to 8 (C, N, O, Ne, Mg, Si, S) multiplied by 10 to the metals offset,
  the entry 9 (Fe) multiplied by 10 to the iron offset, and the entries 0 and 1 (H, He) as
  they were.
\<close>

theorem abundance_offsets_on_copy:
  assumes "store_ok h A"
  shows "fst (evaluate h A x NH z temp xi gamma a f) ! abundance_ref A = h ! abundance_ref A
       \<and> store_ok (fst (evaluate h A x NH z temp xi gamma a f)) A
       \<and> adjust_abundance h A a f = (fst (evaluate h A x NH z temp xi gamma a f), length h)
       \<and> length (fst (evaluate h A x NH z temp xi gamma a f) ! length h) = 10
       \<and> (\<forall>i<10. fst (evaluate h A x NH z temp xi gamma a f) ! length h ! i =
             (if 2 \<le> i \<and> i \<le> 8 then h ! abundance_ref A ! i * 10 powr a
              else if i = 9 then h ! abundance_ref A ! i * 10 powr f
              else h ! abundance_ref A ! i))"
proof -
  have r: "abundance_ref A < length h"
    using assms by (simp add: store_ok_def)
  have e: "fst (evaluate h A x NH z temp xi gamma a f) = h @ [adjusted (h ! abundance_ref A) a f]"
    by (rule fst_evaluate [OF assms])
  have "\<forall>i<10. adjusted (h ! abundance_ref A) a f ! i =
             (if 2 \<le> i \<and> i \<le> 8 then h ! abundance_ref A ! i * 10 powr a
              else if i = 9 then h ! abundance_ref A ! i * 10 powr f
              else h ! abundance_ref A ! i)"
    by (auto simp: adjusted_def)
  then show ?thesis
    using assms r by (simp add: e adjust_abundance_eq nth_append store_ok_def adjusted_def)
qed

theorem abundance_offsets_on_copy_witness:
  "store_ok demo_store demo
   \<and> fst (evaluate demo_store demo [1] 1 0 10000 1 2 1 2) ! abundance_ref demo
       = demo_store ! abundance_ref demo
   \<and> store_ok (fst (evaluate demo_store demo [1] 1 0 10000 1 2 1 2)) demo
   \<and> (5::nat) < 10
   \<and> fst (evaluate demo_store demo [1] 1 0 10000 1 2 1 2) ! length demo_store ! 5
       = demo_store ! abundance_ref demo ! 5 * 10 powr 1"
proof -
  have s: "store_ok demo_store demo"
    by (simp add: store_ok_def demo_store_def)
  from abundance_offsets_on_copy [OF s, of "[1]" 1 0 10000 1 2 1 2]
  show ?thesis using s by simp
qed

subsection \<open>The mean ionization stage\<close>

lemma cross_term_nonneg:
  fixes x y :: real
  assumes "0 < x" and "x < y"
  shows "0 \<le> (real j - real k) * (y ^ j * x ^ k - x ^ j * y ^ k)"
proof (cases "k \<le> j")
  case True
  then obtain d where d: "j = k + d" by (auto simp: le_iff_add)
  have "x ^ d \<le> y ^ d" using assms by (intro power_mono) simp_all
  then have "0 \<le> x ^ k * y ^ k * (y ^ d - x ^ d)" using assms by simp
  moreover have "y ^ j * x ^ k - x ^ j * y ^ k = x ^ k * y ^ k * (y ^ d - x ^ d)"
    by (simp add: d power_add algebra_simps)
  moreover have "0 \<le> real j - real k" using True by simp
  ultimately show ?thesis by simp
next
  case False
  then have "j \<le> k" by simp
  then obtain d where d: "k = j + d" by (auto simp: le_iff_add)
  have "x ^ d \<le> y ^ d" using assms by (intro power_mono) simp_all
  then have "x ^ j * y ^ j * (x ^ d - y ^ d) \<le> 0"
    using assms by (simp add: mult_nonneg_nonpos)
  moreover have "y ^ j * x ^ k - x ^ j * y ^ k = x ^ j * y ^ j * (x ^ d - y ^ d)"
    by (simp add: d power_add algebra_simps)
  moreover have "real j - real k \<le> 0" using False by simp
  ultimately show ?thesis by (simp add: mult_nonpos_nonpos)
qed

lemma weighted_mean_cross:
  fixes W :: "nat \<Rightarrow> real" and x y :: real
  assumes "0 < x" and "x < y" and W: "\<And>j. 0 < W j" and "1 \<le> n"
  shows "(\<Sum>j\<le>n. real j * (W j * x ^ j)) * (\<Sum>k\<le>n. W k * y ^ k)
       < (\<Sum>j\<le>n. real j * (W j * y ^ j)) * (\<Sum>k\<le>n. W k * x ^ k)"
proof -
  define G where "G j k = W j * W k * (y ^ j * x ^ k - x ^ j * y ^ k)" for j k
  define S where "S = (\<Sum>j\<le>n. \<Sum>k\<le>n. real j * G j k)"
  have expand: "(\<Sum>j\<le>n. real j * (W j * y ^ j)) * (\<Sum>k\<le>n. W k * x ^ k)
              - (\<Sum>j\<le>n. real j * (W j * x ^ j)) * (\<Sum>k\<le>n. W k * y ^ k) = S"
    unfolding S_def sum_product sum_subtractf [symmetric]
    by (intro sum.cong refl) (simp add: G_def algebra_simps)
  have "S = (\<Sum>j\<le>n. \<Sum>k\<le>n. real k * G k j)"
    unfolding S_def by (rule sum.swap)
  also have "\<dots> = (\<Sum>j\<le>n. \<Sum>k\<le>n. - (real k * G j k))"
    by (intro sum.cong refl) (simp add: G_def algebra_simps)
  finally have "S + S = (\<Sum>j\<le>n. \<Sum>k\<le>n. real j * G j k) + (\<Sum>j\<le>n. \<Sum>k\<le>n. - (real k * G j k))"
    by (simp add: S_def)
  also have "\<dots> = (\<Sum>j\<le>n. \<Sum>k\<le>n. (real j - real k) * G j k)"
    unfolding sum.distrib [symmetric] by (intro sum.cong refl) (simp add: algebra_simps)
  finally have twice: "2 * S = (\<Sum>j\<le>n. \<Sum>k\<le>n. (real j - real k) * G j k)" by simp
  define T where "T j k = (real j - real k) * G j k" for j k
  have nonneg: "0 \<le> T j k" for j k
  proof -
    have "0 \<le> W j * W k * ((real j - real k) * (y ^ j * x ^ k - x ^ j * y ^ k))"
      using cross_term_nonneg [OF assms(1,2), of j k] W [of j] W [of k] by simp
    then show ?thesis by (simp add: T_def G_def algebra_simps)
  qed
  have "0 < T 1 0"
    using assms(1,2) W [of 1] W [of 0] by (simp add: T_def G_def)
  then have row: "0 < (\<Sum>k\<le>n. T 1 k)"
    by (intro sum_pos2 [where i = 0]) (simp_all add: nonneg)
  have "0 < (\<Sum>j\<le>n. \<Sum>k\<le>n. T j k)"
  proof (rule sum_pos2 [where i = 1])
    show "finite {..n}" by simp
    show "1 \<in> {..n}" using assms(4) by simp
    show "0 < (\<Sum>k\<le>n. T 1 k)" by (rule row)
    show "0 \<le> (\<Sum>k\<le>n. T i k)" for i by (simp add: sum_nonneg nonneg)
  qed
  then have "0 < (\<Sum>j\<le>n. \<Sum>k\<le>n. (real j - real k) * G j k)"
    by (simp add: T_def)
  with twice have "0 < S" by simp
  with expand show ?thesis by linarith
qed

lemma weight_power:
  assumes "0 < xi"
  shows "weight A spec temp xi e j = exp (\<Sum>i<j. ratio A spec temp e i) * xi ^ j"
proof -
  have "exp (real j * ln xi) = xi ^ j"
    using assms by (simp add: exp_of_nat_mult)
  then show ?thesis
    using assms by (simp add: weight_def xil_of_def exp_add)
qed

lemma mean_stage_eq:
  assumes "atomicnumber A e \<le> 26"
  shows "mean_stage A spec temp xi e =
           (\<Sum>j<atomicnumber A e. real j * weight A spec temp xi e j) / total_weight A spec temp xi e"
proof -
  have "mean_stage A spec temp xi e = (\<Sum>j<atomicnumber A e. real j * calc_num A spec temp xi j e)"
    unfolding mean_stage_def
    using assms by (intro sum.mono_neutral_right) (auto simp: calc_num_invalid)
  also have "\<dots> = (\<Sum>j<atomicnumber A e.
                 real j * weight A spec temp xi e j / total_weight A spec temp xi e)"
    by (intro sum.cong refl) (simp add: calc_num_valid assms)
  finally show ?thesis by (simp add: sum_divide_distrib)
qed

lemma mean_stage_full_eq:
  assumes "atomicnumber A e \<le> 26"
  shows "mean_stage_full A spec temp xi e =
           (\<Sum>j\<le>atomicnumber A e. real j * weight A spec temp xi e j) / total_weight A spec temp xi e"
  by (simp add: mean_stage_full_def mean_stage_eq [OF assms] stripped_fraction_eq [OF assms]
        lessThan_Suc_atMost [symmetric] add_divide_distrib)

lemma he_Z: "atomicnumber demo 1 = 2"
  by (simp add: ref_atomicnumber_def)

lemma arec_he0: "arec demo 10000 1 0 = 1"
  by (simp add: arec_def Let_def mask_2_def ref_atomicnumber_def)

lemma arec_he1: "arec demo 10000 1 1 = 0.004132 * (1.735 + ln 63.2 + 1 / 379.2)"
  by (simp add: arec_def Let_def mask_2_def ref_atomicnumber_def)

lemma arec_he1_bounds: "0 < arec demo 10000 1 1 \<and> arec demo 10000 1 1 < 0.27"
proof -
  have gen: "0 < 0.004132 * (1.735 + L + 1 / 379.2) \<and> 0.004132 * (1.735 + L + 1 / 379.2) < 0.27"
    if "0 \<le> L" "L \<le> 62.2" for L :: real
    using that by (simp add: algebra_simps)
  have u: "ln (63.2::real) \<le> 62.2"
    using ln_le_minus_one [of "63.2::real"] by simp
  have l: "0 \<le> ln (63.2::real)" by simp
  show ?thesis
    unfolding arec_he1 by (rule gen [OF l u])
qed

lemma ratio_he0: "ratio demo flat_spec 10000 1 0 = ln (0.0000032749 * 721)"
  using arec_he0 by (simp add: ratio_def intgral_demo)

lemma ratio_he1:
  "ratio demo flat_spec 10000 1 1 = ln (0.0000032749 * 721 / arec demo 10000 1 1)"
  using arec_he1_bounds by (simp add: ratio_def intgral_demo)

lemma weights_he:
  assumes "0 < x"
  shows "weight demo flat_spec 10000 x 1 0 = 1"
    and "weight demo flat_spec 10000 x 1 1 = 0.0000032749 * 721 * x"
    and "weight demo flat_spec 10000 x 1 2 =
           0.0000032749 * 721 * (0.0000032749 * 721 / arec demo 10000 1 1) * x\<^sup>2"
proof -
  show "weight demo flat_spec 10000 x 1 0 = 1"
    by (simp add: weight_def)
  have "{..<Suc 0} = {0::nat}" by auto
  then show "weight demo flat_spec 10000 x 1 1 = 0.0000032749 * 721 * x"
    using ratio_he0 by (simp add: weight_power [OF assms])
  have pos: "0 < 0.0000032749 * 721 / arec demo 10000 1 1"
    using arec_he1_bounds by simp
  have "(\<Sum>i<2. ratio demo flat_spec 10000 1 i)
          = ratio demo flat_spec 10000 1 0 + ratio demo flat_spec 10000 1 1"
    by (simp add: numeral_2_eq_2)
  then have "exp (\<Sum>i<2. ratio demo flat_spec 10000 1 i)
          = 0.0000032749 * 721 * (0.0000032749 * 721 / arec demo 10000 1 1)"
    using pos by (simp only: ratio_he0 ratio_he1 exp_add exp_ln) simp
  then show "weight demo flat_spec 10000 x 1 2 =
           0.0000032749 * 721 * (0.0000032749 * 721 / arec demo 10000 1 1) * x\<^sup>2"
    by (simp only: weight_power [OF assms])
qed

lemma mean_stage_he:
  assumes "0 < x"
  shows "mean_stage demo flat_spec 10000 x 1 =
           0.0000032749 * 721 * x
           / (1 + 0.0000032749 * 721 * x
                + 0.0000032749 * 721 * (0.0000032749 * 721 / arec demo 10000 1 1) * x\<^sup>2)"
proof -
  have Z: "atomicnumber demo 1 \<le> 26" using he_Z by simp
  have a: "(\<Sum>j<2. real j * weight demo flat_spec 10000 x 1 j) = weight demo flat_spec 10000 x 1 1"
    by (simp add: numeral_2_eq_2)
  have b: "(\<Sum>j\<le>2. weight demo flat_spec 10000 x 1 j)
             = weight demo flat_spec 10000 x 1 0 + weight demo flat_spec 10000 x 1 1
               + weight demo flat_spec 10000 x 1 2"
    by (simp add: numeral_2_eq_2)
  show ?thesis
    unfolding mean_stage_eq [OF Z] total_weight_def he_Z a b weights_he [OF assms] ..
qed

text \<open>
  C6 (as amended).  For every element with more than one valid ionization stage and every
  fixed temperature above 0, if \<open>xi2 > xi1 > 0\<close> then the population-weighted mean
  ionization stage is strictly larger at \<open>xi2\<close> than at \<open>xi1\<close>, when the fully stripped
  ion, which the matrix does not hold, is counted at stage \<open>atomicNumber[element]\<close> with
  its fraction.
\<close>

theorem mean_stage_full_increasing:
  assumes "atomic_ok A" and "e < 10" and "1 < atomicnumber A e" and "0 < temp"
      and "logs_defined A spec temp" and "0 < xi1" and "xi1 < xi2"
  shows "mean_stage_full A spec temp xi1 e < mean_stage_full A spec temp xi2 e"
proof -
  let ?Z = "atomicnumber A e"
  let ?W = "\<lambda>j. exp (\<Sum>i<j. ratio A spec temp e i)"
  from assms(1,2) have Z: "?Z \<le> 26" by (simp add: atomic_ok_def)
  from assms(3) have Z1: "1 \<le> ?Z" by simp
  from assms(6,7) have x2: "0 < xi2" by linarith
  have t1: "0 < total_weight A spec temp xi1 e" and t2: "0 < total_weight A spec temp xi2 e"
    by (rule total_weight_pos)+
  have "(\<Sum>j\<le>?Z. real j * (?W j * xi1 ^ j)) * (\<Sum>k\<le>?Z. ?W k * xi2 ^ k)
      < (\<Sum>j\<le>?Z. real j * (?W j * xi2 ^ j)) * (\<Sum>k\<le>?Z. ?W k * xi1 ^ k)"
    by (rule weighted_mean_cross [OF assms(6,7) _ Z1]) simp
  then have "(\<Sum>j\<le>?Z. real j * weight A spec temp xi1 e j) * total_weight A spec temp xi2 e
           < (\<Sum>j\<le>?Z. real j * weight A spec temp xi2 e j) * total_weight A spec temp xi1 e"
    by (simp add: total_weight_def weight_power [OF assms(6)] weight_power [OF x2])
  then show ?thesis
    using t1 t2 by (simp add: mean_stage_full_eq [OF Z] field_simps)
qed

theorem mean_stage_full_increasing_witness:
  "atomic_ok demo \<and> (1::nat) < 10 \<and> 1 < atomicnumber demo 1 \<and> (0::real) < 10000
   \<and> logs_defined demo flat_spec 10000 \<and> (0::real) < 1 \<and> (1::real) < 2
   \<and> mean_stage_full demo flat_spec 10000 1 1 < mean_stage_full demo flat_spec 10000 2 1"
proof -
  have z: "1 < atomicnumber demo 1" using he_Z by simp
  have e: "(1::nat) < 10" and t: "(0::real) < 10000"
    and x1: "(0::real) < 1" and x2: "(1::real) < 2"
    by simp_all
  from mean_stage_full_increasing [OF atomic_ok_demo e z t logs_defined_demo x1 x2]
  show ?thesis
    by (intro conjI atomic_ok_demo e z t logs_defined_demo x1 x2)
qed

text \<open>The mean over the rows of the matrix alone falls again once the population moves
  to the fully stripped ion: helium at 10000 K, from \<open>xi = 100\<close> to \<open>xi = 1000\<close>.\<close>

theorem mean_stage_not_increasing_counterexample:
  "\<not> mean_stage demo flat_spec 10000 100 1 < mean_stage demo flat_spec 10000 1000 1"
proof -
  define q where "q = 0.0000032749 * 721 * (0.0000032749 * 721 / arec demo 10000 1 1)"
  have "0.0000032749 * 721 / 0.27 < 0.0000032749 * 721 / arec demo 10000 1 1"
    using arec_he1_bounds by (intro divide_strict_left_mono) simp_all
  then have q: "0.00001 < q"
    unfolding q_def by simp
  have m1: "mean_stage demo flat_spec 10000 100 1
              = 0.0000032749 * 721 * 100 / (1 + 0.0000032749 * 721 * 100 + q * 100\<^sup>2)"
    unfolding q_def by (rule mean_stage_he) simp
  have m2: "mean_stage demo flat_spec 10000 1000 1
              = 0.0000032749 * 721 * 1000 / (1 + 0.0000032749 * 721 * 1000 + q * 1000\<^sup>2)"
    unfolding q_def by (rule mean_stage_he) simp
  have "0.0000032749 * 721 * 1000 / (1 + 0.0000032749 * 721 * 1000 + q * 1000\<^sup>2)
      \<le> 0.0000032749 * 721 * 100 / (1 + 0.0000032749 * 721 * 100 + q * 100\<^sup>2)"
    using q by (simp add: field_simps)
  then show ?thesis
    unfolding m1 m2 by simp
qed

end
